theory Spec2Isabelle
  imports Main "HOL-Library.Word"
begin

section \<open>Python values\<close>

text \<open>
  The relay (\<^verbatim>\<open>Back-End/app.py\<close>) handles values that come out of a JSON parser:
  \<^verbatim>\<open>None\<close>, booleans, unbounded integers, floats (IEEE doubles, kept as their 64 bits),
  strings, lists and dicts. A Python \<^verbatim>\<open>str\<close> is a sequence of code points and a
  \<^verbatim>\<open>bytes\<close> object a sequence of integers below 256; both are lists of naturals here.
  A dict is the list of its items, read with \<open>map_of\<close>; the keys of a dict are distinct,
  so the order of the items does not matter.
\<close>

type_synonym pystr = "nat list"

type_synonym pybytes = "nat list"

definition py :: "string \<Rightarrow> pystr" where
  "py s = map of_char s"

datatype pyval =
    PNone
  | PBool bool
  | PInt int
  | PFloat "64 word"
  | PStr pystr
  | PList "pyval list"
  | PDict "(pystr \<times> pyval) list"

text \<open>The exception classes that the handlers can meet.\<close>

datatype exn =
    AttributeError
  | TypeError
  | ValueError
  | BinasciiError
  | UnicodeEncodeError
  | UnicodeDecodeError
  | BadRequest
  | JSONDecodeError
  | RequestException
  | HTTPError nat pystr

text \<open>
  \<^verbatim>\<open>except (TypeError, ValueError)\<close> also catches the subclasses of \<^verbatim>\<open>ValueError\<close>:
  \<^verbatim>\<open>binascii.Error\<close>, the Unicode errors and the JSON decoding error.
\<close>

fun is_TypeError :: "exn \<Rightarrow> bool" where
  "is_TypeError TypeError = True"
| "is_TypeError _ = False"

fun is_ValueError :: "exn \<Rightarrow> bool" where
  "is_ValueError ValueError = True"
| "is_ValueError BinasciiError = True"
| "is_ValueError UnicodeEncodeError = True"
| "is_ValueError UnicodeDecodeError = True"
| "is_ValueError JSONDecodeError = True"
| "is_ValueError _ = False"

text \<open>Truth value testing (\<^verbatim>\<open>not data\<close>): the empty and zero values are false.\<close>

fun truthy :: "pyval \<Rightarrow> bool" where
  "truthy PNone = False"
| "truthy (PBool b) = b"
| "truthy (PInt i) = (i \<noteq> 0)"
| "truthy (PFloat w) = (w \<noteq> 0 \<and> w \<noteq> 0x8000000000000000)"
| "truthy (PStr s) = (s \<noteq> [])"
| "truthy (PList xs) = (xs \<noteq> [])"
| "truthy (PDict kvs) = (kvs \<noteq> [])"

text \<open>
  \<^verbatim>\<open>d.get(key, default)\<close>: only a dict has the method; on any other value the
  attribute lookup raises \<^verbatim>\<open>AttributeError\<close>.
\<close>

fun dict_get :: "pyval \<Rightarrow> pystr \<Rightarrow> pyval \<Rightarrow> exn + pyval" where
  "dict_get (PDict kvs) k d = Inr (case map_of kvs k of None \<Rightarrow> d | Some v \<Rightarrow> v)"
| "dict_get _ k d = Inl AttributeError"

text \<open>
  Sequencing inside a \<^verbatim>\<open>try\<close> block: the first exception ends the block.
\<close>

definition bindE :: "exn + 'a \<Rightarrow> ('a \<Rightarrow> exn + 'b) \<Rightarrow> exn + 'b" where
  "bindE m f = (case m of Inl e \<Rightarrow> Inl e | Inr x \<Rightarrow> f x)"

text \<open>
  \<^verbatim>\<open>str(v)\<close> and the formatting of \<^verbatim>\<open>v\<close> in an f-string: a string is itself. The text
  of any other value (the \<^verbatim>\<open>repr\<close> of a float, of a list, ...) is a parameter of the model.
\<close>

fun py_str :: "(pyval \<Rightarrow> pystr) \<Rightarrow> pyval \<Rightarrow> pystr" where
  "py_str other (PStr s) = s"
| "py_str other v = other v"

section \<open>UTF-8\<close>

text \<open>
  \<^verbatim>\<open>str.encode('utf-8')\<close>: one to four bytes for each code point; a surrogate
  (\<open>0xD800\<close> to \<open>0xDFFF\<close>) cannot be encoded and raises \<^verbatim>\<open>UnicodeEncodeError\<close>. A number
  from \<open>0x110000\<close> on is no code point of a Python string.
\<close>

definition utf8_encode_char :: "nat \<Rightarrow> exn + pybytes" where
  "utf8_encode_char cp =
     (if cp < 0x80 then Inr [cp]
      else if cp < 0x800 then Inr [0xC0 + cp div 64, 0x80 + cp mod 64]
      else if cp < 0x10000 then
        (if 0xD800 \<le> cp \<and> cp \<le> 0xDFFF then Inl UnicodeEncodeError
         else Inr [0xE0 + cp div 4096, 0x80 + cp div 64 mod 64, 0x80 + cp mod 64])
      else if cp < 0x110000 then
        Inr [0xF0 + cp div 262144, 0x80 + cp div 4096 mod 64, 0x80 + cp div 64 mod 64,
             0x80 + cp mod 64]
      else Inl UnicodeEncodeError)"

fun utf8_encode :: "pystr \<Rightarrow> exn + pybytes" where
  "utf8_encode [] = Inr []"
| "utf8_encode (cp # cps) =
     (case utf8_encode_char cp of
        Inl e \<Rightarrow> Inl e
      | Inr bs \<Rightarrow> (case utf8_encode cps of Inl e \<Rightarrow> Inl e | Inr rest \<Rightarrow> Inr (bs @ rest)))"

text \<open>
  The code points that UTF-8 encodes: the Unicode scalar values, that is every code point
  that is no surrogate. A Python string of scalar values is valid UTF-8 text.
\<close>

definition unicode_scalar :: "nat \<Rightarrow> bool" where
  "unicode_scalar cp = (cp < 0xD800 \<or> 0xDFFF < cp \<and> cp < 0x110000)"

text \<open>\<^verbatim>\<open>x.encode('utf-8')\<close> on a parsed value: only a string has the method.\<close>

fun encode_utf8 :: "pyval \<Rightarrow> exn + pybytes" where
  "encode_utf8 (PStr s) = utf8_encode s"
| "encode_utf8 _ = Inl AttributeError"

text \<open>
  The well-formed byte sequence at the head of the input, if there is one, as the pair of
  its code point and its length: no overlong form, no surrogate, nothing above
  \<open>0x10FFFF\<close>.
\<close>

definition cont :: "nat \<Rightarrow> bool" where
  "cont b = (0x80 \<le> b \<and> b \<le> 0xBF)"

definition second_of3 :: "nat \<Rightarrow> nat \<Rightarrow> bool" where
  "second_of3 a b =
     (if a = 0xE0 then 0xA0 \<le> b \<and> b \<le> 0xBF
      else if a = 0xED then 0x80 \<le> b \<and> b \<le> 0x9F
      else cont b)"

definition second_of4 :: "nat \<Rightarrow> nat \<Rightarrow> bool" where
  "second_of4 a b =
     (if a = 0xF0 then 0x90 \<le> b \<and> b \<le> 0xBF
      else if a = 0xF4 then 0x80 \<le> b \<and> b \<le> 0x8F
      else cont b)"

fun utf8_next :: "pybytes \<Rightarrow> (nat \<times> nat) option" where
  "utf8_next [] = None"
| "utf8_next (a # bs) =
     (if a < 0x80 then Some (a, 1)
      else if 0xC2 \<le> a \<and> a \<le> 0xDF then
        (case bs of
           b # _ \<Rightarrow> if cont b then Some ((a - 0xC0) * 64 + (b - 0x80), 2) else None
         | _ \<Rightarrow> None)
      else if 0xE0 \<le> a \<and> a \<le> 0xEF then
        (case bs of
           b # c # _ \<Rightarrow>
             if second_of3 a b \<and> cont c
             then Some ((a - 0xE0) * 4096 + (b - 0x80) * 64 + (c - 0x80), 3) else None
         | _ \<Rightarrow> None)
      else if 0xF0 \<le> a \<and> a \<le> 0xF4 then
        (case bs of
           b # c # d # _ \<Rightarrow>
             if second_of4 a b \<and> cont c \<and> cont d
             then Some ((a - 0xF0) * 262144 + (b - 0x80) * 4096 + (c - 0x80) * 64 + (d - 0x80), 4)
             else None
         | _ \<Rightarrow> None)
      else None)"

text \<open>
  \<^verbatim>\<open>bytes.decode('utf-8')\<close> raises at the first byte that starts no well-formed
  sequence. With \<^verbatim>\<open>errors='ignore'\<close> the bytes of an ill-formed sequence are left out
  instead: a lead byte and the continuation bytes accepted after it, none of which can
  start a sequence, so leaving them out one at a time gives the same text.
\<close>

fun utf8_decode :: "pybytes \<Rightarrow> exn + pystr" where
  "utf8_decode [] = Inr []"
| "utf8_decode (a # bs) =
     (case utf8_next (a # bs) of
        None \<Rightarrow> Inl UnicodeDecodeError
      | Some (cp, n) \<Rightarrow>
          (case utf8_decode (drop (n - 1) bs) of Inl e \<Rightarrow> Inl e | Inr r \<Rightarrow> Inr (cp # r)))"

fun utf8_decode_ignore :: "pybytes \<Rightarrow> pystr" where
  "utf8_decode_ignore [] = []"
| "utf8_decode_ignore (a # bs) =
     (case utf8_next (a # bs) of
        None \<Rightarrow> utf8_decode_ignore bs
      | Some (cp, n) \<Rightarrow> cp # utf8_decode_ignore (drop (n - 1) bs))"

section \<open>Base64\<close>

text \<open>
  \<^verbatim>\<open>base64.b64encode\<close> is \<^verbatim>\<open>binascii.b2a_base64\<close> without the newline: three bytes
  give four characters of the alphabet, and a last group of one or two bytes is padded
  with \<^verbatim>\<open>=\<close> (61).
\<close>

definition table_b2a_base64 :: "nat list" where
  "table_b2a_base64 =
     py ''ABCDEFGHIJKLMNOPQRSTUVWXYZabcdefghijklmnopqrstuvwxyz0123456789+/''"

definition b64_char :: "nat \<Rightarrow> nat" where
  "b64_char i = table_b2a_base64 ! i"

fun b64encode :: "pybytes \<Rightarrow> pybytes" where
  "b64encode [] = []"
| "b64encode [a] = [b64_char (a div 4), b64_char (a mod 4 * 16), 61, 61]"
| "b64encode [a, b] =
     [b64_char (a div 4), b64_char (a mod 4 * 16 + b div 16), b64_char (b mod 16 * 4), 61]"
| "b64encode (a # b # c # bs) =
     [b64_char (a div 4), b64_char (a mod 4 * 16 + b div 16),
      b64_char (b mod 16 * 4 + c div 64), b64_char (c mod 64)] @ b64encode bs"

text \<open>
  The value of a character of the alphabet (\<^verbatim>\<open>table_a2b_base64\<close>); every other byte has
  none.
\<close>

definition b64_value :: "nat \<Rightarrow> nat option" where
  "b64_value c =
     (if 65 \<le> c \<and> c \<le> 90 then Some (c - 65)
      else if 97 \<le> c \<and> c \<le> 122 then Some (c - 71)
      else if 48 \<le> c \<and> c \<le> 57 then Some (c + 4)
      else if c = 43 then Some 62
      else if c = 47 then Some 63
      else None)"

text \<open>
  \<^verbatim>\<open>binascii.a2b_base64\<close> outside strict mode, as \<^verbatim>\<open>base64.b64decode\<close> calls it: the
  loop keeps the position in the current group of four (\<open>quad_pos\<close>), the bits left over
  (\<open>leftchar\<close>) and the number of padding characters seen (\<open>pads\<close>). Characters outside
  the alphabet are skipped; padding that completes a group ends the input; input that ends
  inside a group raises \<^verbatim>\<open>binascii.Error\<close>.
\<close>

fun a2b_base64 :: "nat \<Rightarrow> nat \<Rightarrow> nat \<Rightarrow> pybytes \<Rightarrow> pybytes \<Rightarrow> exn + pybytes" where
  "a2b_base64 quad_pos leftchar pads out [] =
     (if quad_pos \<noteq> 0 then Inl BinasciiError else Inr out)"
| "a2b_base64 quad_pos leftchar pads out (this_ch # rest) =
     (if this_ch = 61 then
        (if 2 \<le> quad_pos \<and> 4 \<le> quad_pos + (pads + 1) then Inr out
         else a2b_base64 quad_pos leftchar (if 2 \<le> quad_pos then pads + 1 else pads) out rest)
      else
        (case b64_value this_ch of
           None \<Rightarrow> a2b_base64 quad_pos leftchar pads out rest
         | Some v \<Rightarrow>
             if quad_pos = 0 then a2b_base64 1 v 0 out rest
             else if quad_pos = 1 then
               a2b_base64 2 (v mod 16) 0 (out @ [leftchar * 4 + v div 16]) rest
             else if quad_pos = 2 then
               a2b_base64 3 (v mod 4) 0 (out @ [leftchar * 16 + v div 4]) rest
             else a2b_base64 0 0 0 (out @ [leftchar * 64 + v]) rest))"

text \<open>
  \<^verbatim>\<open>base64.b64decode(data)\<close>: a string must be ASCII (\<^verbatim>\<open>ValueError\<close> otherwise) and is
  decoded as its bytes; a value that is neither a string nor bytes-like raises
  \<^verbatim>\<open>TypeError\<close>.
\<close>

fun b64decode :: "pyval \<Rightarrow> exn + pybytes" where
  "b64decode (PStr s) =
     (if list_all (\<lambda>c. c < 128) s then a2b_base64 0 0 0 [] s else Inl ValueError)"
| "b64decode _ = Inl TypeError"

section \<open>The decoding helper\<close>

text \<open>
  \<^verbatim>\<open>
  def decode_base64_output(data):
      if data is None:
          return ""
      try:
          return base64.b64decode(data).decode('utf-8', errors='ignore')
      except (TypeError, ValueError):
          return str(data)
  \<close>
  An exception of another class would leave the function: the result is a sum.
\<close>

definition decode_base64_output :: "(pyval \<Rightarrow> pystr) \<Rightarrow> pyval \<Rightarrow> exn + pystr" where
  "decode_base64_output other data =
     (if data = PNone then Inr []
      else
        (case b64decode data of
           Inr bs \<Rightarrow> Inr (utf8_decode_ignore bs)
         | Inl e \<Rightarrow> if is_TypeError e \<or> is_ValueError e then Inr (py_str other data) else Inl e))"

section \<open>The remote engine and the HTTP surface\<close>

text \<open>
  An outbound call of the relay (\<^verbatim>\<open>requests.post\<close>, \<^verbatim>\<open>requests.get\<close>) and what comes
  back: no response at all (a connection error or a timeout, which \<^verbatim>\<open>requests\<close> raises as
  a \<^verbatim>\<open>RequestException\<close> that is not an \<^verbatim>\<open>HTTPError\<close>), or a response with its status
  code, its text and the value of \<^verbatim>\<open>response.json()\<close> (\<open>None\<close> where the body is no JSON
  and the call raises). The remote engine is a parameter of the handlers: a function from
  the call to what comes back.
\<close>

datatype http_verb = GET | POST

record outbound =
  verb :: http_verb
  url :: pystr
  json_payload :: "pyval option"
  headers :: "(pystr \<times> pystr) list"

datatype remote_reply =
    No_Reply
  | Reply nat pystr "pyval option"

type_synonym remote_engine = "outbound \<Rightarrow> remote_reply"

text \<open>\<^verbatim>\<open>response.raise_for_status()\<close> raises for the 4xx and 5xx codes.\<close>

definition raise_for_status :: "nat \<Rightarrow> bool" where
  "raise_for_status sc = (400 \<le> sc \<and> sc < 600)"

text \<open>
  What a handler gives back: the HTTP status with the JSON body of \<^verbatim>\<open>jsonify\<close>, and the
  outbound calls it made, in order.
\<close>

type_synonym response = "nat \<times> pyval"

record outcome =
  response :: response
  calls :: "outbound list"

text \<open>\<^verbatim>\<open>request.get_json()\<close> raises on a body it cannot read, or returns the parsed value.\<close>

datatype request_json = Unparsable | Parsed pyval

definition JUDGE0_URL :: pystr where
  "JUDGE0_URL = py ''https://ce.judge0.com''"

definition LANGUAGE_MAP :: "(pystr \<times> int) list" where
  "LANGUAGE_MAP =
     [(py ''Python 3'', 71),
      (py ''Node.js (JavaScript)'', 63),
      (py ''C++'', 54),
      (py ''C'', 50),
      (py ''Java'', 62),
      (py ''C#'', 51),
      (py ''Go'', 60),
      (py ''Rust'', 73),
      (py ''TypeScript'', 74),
      (py ''Plain Text'', 43)]"

text \<open>
  The values that can be looked up in a dict: \<^verbatim>\<open>hash\<close> raises \<^verbatim>\<open>TypeError\<close> on a list
  and on a dict.
\<close>

fun hashable :: "pyval \<Rightarrow> bool" where
  "hashable (PList xs) = False"
| "hashable (PDict kvs) = False"
| "hashable _ = True"

text \<open>
  \<^verbatim>\<open>LANGUAGE_MAP.get(language_name)\<close>: a list or a dict is unhashable and raises
  \<^verbatim>\<open>TypeError\<close>; any other value that is no key gives \<^verbatim>\<open>None\<close>.
\<close>

fun language_lookup :: "pyval \<Rightarrow> exn + int option" where
  "language_lookup (PStr s) = Inr (map_of LANGUAGE_MAP s)"
| "language_lookup (PList xs) = Inl TypeError"
| "language_lookup (PDict kvs) = Inl TypeError"
| "language_lookup _ = Inr None"

text \<open>\<^verbatim>\<open>base64.b64encode(x.encode('utf-8')).decode('utf-8')\<close>, for the code and for stdin.\<close>

definition b64_text :: "pyval \<Rightarrow> exn + pystr" where
  "b64_text x = bindE (encode_utf8 x) (\<lambda>bs. utf8_decode (b64encode bs))"

section \<open>Submit\<close>

text \<open>
  The body of \<^verbatim>\<open>submit_code\<close> up to the outbound call: an exception, an early response,
  or the call to make.
\<close>

definition submission :: "pystr \<Rightarrow> int \<Rightarrow> pystr \<Rightarrow> outbound" where
  "submission encoded_code language_id encoded_stdin =
     \<lparr>verb = POST,
      url = JUDGE0_URL @ py ''/submissions?base64_encoded=true&wait=false'',
      json_payload = Some (PDict
        [(py ''source_code'', PStr encoded_code),
         (py ''language_id'', PInt language_id),
         (py ''stdin'', PStr encoded_stdin),
         (py ''cpu_time_limit'', PInt 5),
         (py ''memory_limit'', PInt 256000)]),
      headers = [(py ''content-type'', py ''application/json'')]\<rparr>"

text \<open>
  The response of \<^verbatim>\<open>if not language_id\<close>, taken when the lookup gave \<^verbatim>\<open>None\<close> or 0.
\<close>

definition unsupported :: "(pyval \<Rightarrow> pystr) \<Rightarrow> pyval \<Rightarrow> response" where
  "unsupported other language_name =
     (400, PDict [(py ''error'',
        PStr (py ''Unsupported language: '' @ py_str other language_name))])"

definition submit_prepare ::
  "(pyval \<Rightarrow> pystr) \<Rightarrow> request_json \<Rightarrow> exn + (response + outbound)" where
  "submit_prepare other req =
     (case req of
        Unparsable \<Rightarrow> Inl BadRequest
      | Parsed data \<Rightarrow>
          if \<not> truthy data
          then Inr (Inl (400, PDict [(py ''error'', PStr (py ''Invalid JSON payload''))]))
          else
            bindE (dict_get data (py ''code'') (PStr [])) (\<lambda>code.
            bindE (dict_get data (py ''language'') (PStr (py ''python''))) (\<lambda>language_name.
            bindE (dict_get data (py ''stdin'') (PStr [])) (\<lambda>stdin.
            bindE (language_lookup language_name) (\<lambda>found.
              case found of
                None \<Rightarrow> Inr (Inl (unsupported other language_name))
              | Some language_id \<Rightarrow>
                  if language_id = 0 then Inr (Inl (unsupported other language_name))
                  else
                    bindE (b64_text code) (\<lambda>encoded_code.
                    bindE (b64_text stdin) (\<lambda>encoded_stdin.
                      Inr (Inr (submission encoded_code language_id encoded_stdin)))))))))"

text \<open>The rest of the \<^verbatim>\<open>try\<close> block, from what the remote engine answered.\<close>

definition submit_finish :: "remote_reply \<Rightarrow> exn + response" where
  "submit_finish reply =
     (case reply of
        No_Reply \<Rightarrow> Inl RequestException
      | Reply sc body js \<Rightarrow>
          if raise_for_status sc then Inl (HTTPError sc body)
          else
            (case js of
               None \<Rightarrow> Inl JSONDecodeError
             | Some j \<Rightarrow>
                 bindE (dict_get j (py ''token'') PNone) (\<lambda>token.
                   Inr (202, PDict [(py ''token'', token)]))))"

text \<open>The two \<^verbatim>\<open>except\<close> clauses of \<^verbatim>\<open>submit_code\<close>.\<close>

fun submit_except :: "exn \<Rightarrow> response" where
  "submit_except (HTTPError sc error_details) =
     (502, PDict [(py ''error'', PStr (py ''Failed to submit code to compiler service.'')),
                  (py ''details'', PStr error_details)])"
| "submit_except _ =
     (500, PDict [(py ''error'', PStr (py ''An unexpected server error occurred.''))])"

definition submit_code :: "(pyval \<Rightarrow> pystr) \<Rightarrow> remote_engine \<Rightarrow> request_json \<Rightarrow> outcome" where
  "submit_code other remote req =
     (case submit_prepare other req of
        Inl e \<Rightarrow> \<lparr>response = submit_except e, calls = []\<rparr>
      | Inr (Inl early) \<Rightarrow> \<lparr>response = early, calls = []\<rparr>
      | Inr (Inr call) \<Rightarrow>
          \<lparr>response = (case submit_finish (remote call) of Inl e \<Rightarrow> submit_except e | Inr r \<Rightarrow> r),
           calls = [call]\<rparr>)"

section \<open>PollStatus\<close>

text \<open>\<^verbatim>\<open>status_id in [1, 2]\<close>: equality with 1 or 2, which \<^verbatim>\<open>True\<close>, 1.0 and 2.0 have too.\<close>

fun in_1_2 :: "pyval \<Rightarrow> bool" where
  "in_1_2 (PInt i) = (i = 1 \<or> i = 2)"
| "in_1_2 (PBool b) = b"
| "in_1_2 (PFloat w) = (w = 0x3FF0000000000000 \<or> w = 0x4000000000000000)"
| "in_1_2 _ = False"

text \<open>The terminal result: \<^verbatim>\<open>final_result\<close>, its entries evaluated in the order written.\<close>

definition final_result :: "(pyval \<Rightarrow> pystr) \<Rightarrow> pyval \<Rightarrow> exn + pyval" where
  "final_result other result =
     bindE (dict_get result (py ''status'') (PDict [])) (\<lambda>status.
     bindE (dict_get status (py ''description'') (PStr (py ''Unknown Error''))) (\<lambda>description.
     bindE (dict_get result (py ''stdout'') PNone) (\<lambda>out.
     bindE (decode_base64_output other out) (\<lambda>stdout.
     bindE (dict_get result (py ''stderr'') PNone) (\<lambda>err.
     bindE (decode_base64_output other err) (\<lambda>stderr.
     bindE (dict_get result (py ''compile_output'') PNone) (\<lambda>cout.
     bindE (decode_base64_output other cout) (\<lambda>compile_output.
     bindE (dict_get result (py ''time'') PNone) (\<lambda>time.
     bindE (dict_get result (py ''memory'') PNone) (\<lambda>memory.
       Inr (PDict
         [(py ''status'', description),
          (py ''stdout'', PStr stdout),
          (py ''stderr'', PStr stderr),
          (py ''compile_output'', PStr compile_output),
          (py ''time'', time),
          (py ''memory'', memory)])))))))))))"

definition status_finish :: "(pyval \<Rightarrow> pystr) \<Rightarrow> remote_reply \<Rightarrow> exn + response" where
  "status_finish other reply =
     (case reply of
        No_Reply \<Rightarrow> Inl RequestException
      | Reply sc body js \<Rightarrow>
          if raise_for_status sc then Inl (HTTPError sc body)
          else
            (case js of
               None \<Rightarrow> Inl JSONDecodeError
             | Some result \<Rightarrow>
                 bindE (dict_get result (py ''status'') (PDict [])) (\<lambda>status.
                 bindE (dict_get status (py ''id'') PNone) (\<lambda>status_id.
                   if in_1_2 status_id
                   then Inr (200, PDict [(py ''status'',
                          PDict [(py ''description'', PStr (py ''Pending''))])])
                   else bindE (final_result other result) (\<lambda>r. Inr (200, r))))))"

fun status_except :: "exn \<Rightarrow> response" where
  "status_except (HTTPError sc error_details) =
     (if sc = 404 then (404, PDict [(py ''error'', PStr (py ''Invalid or expired token.''))])
      else (502, PDict
        [(py ''error'', PStr (py ''Failed to retrieve results from compiler service.'')),
         (py ''details'', PStr error_details)]))"
| "status_except _ =
     (500, PDict
        [(py ''error'', PStr (py ''An unexpected server error occurred during polling.''))])"

definition status_call :: "pystr \<Rightarrow> outbound" where
  "status_call token =
     \<lparr>verb = GET,
      url = JUDGE0_URL @ py ''/submissions/'' @ token @
        py ''?base64_encoded=true&fields=stdout,stderr,compile_output,time,memory,status'',
      json_payload = None,
      headers = []\<rparr>"

definition get_status :: "(pyval \<Rightarrow> pystr) \<Rightarrow> remote_engine \<Rightarrow> pystr \<Rightarrow> outcome" where
  "get_status other remote token =
     (if token = []
      then \<lparr>response = (400, PDict [(py ''error'', PStr (py ''Token is required''))]),
            calls = []\<rparr>
      else
        \<lparr>response =
           (case status_finish other (remote (status_call token)) of
              Inl e \<Rightarrow> status_except e
            | Inr r \<Rightarrow> r),
         calls = [status_call token]\<rparr>)"

section \<open>Fixtures for the closed examples\<close>

text \<open>
  The closed examples below never format a value other than a string, so the text of the
  other values is taken empty there; the remote engine of an example gives one fixed
  answer to every call.
\<close>

definition no_text :: "pyval \<Rightarrow> pystr" where
  "no_text v = []"

definition engine_answering :: "remote_reply \<Rightarrow> remote_engine" where
  "engine_answering reply call = reply"

section \<open>PollStatus: the token and the remote status\<close>

text \<open>
  C9: polling with the empty token gives HTTP 400 with the error \<^verbatim>\<open>Token is required\<close>,
  and the list of outbound calls is empty, whatever the remote engine is.
\<close>

theorem poll_empty_token:
  "get_status other remote [] =
     \<lparr>response = (400, PDict [(py ''error'', PStr (py ''Token is required''))]), calls = []\<rparr>"
  by (simp add: get_status_def)

theorem poll_empty_token_witness:
  "get_status no_text (engine_answering No_Reply) [] =
     \<lparr>response = (400, PDict [(py ''error'', PStr (py ''Token is required''))]), calls = []\<rparr>"
  using poll_empty_token [of no_text "engine_answering No_Reply"] by simp

text \<open>
  C8: when the remote engine answers the query for a non-empty token with HTTP 404,
  whatever its body, the poll gives HTTP 404 with the error
  \<^verbatim>\<open>Invalid or expired token.\<close>
\<close>

theorem poll_not_found:
  assumes "token \<noteq> []" and "remote (status_call token) = Reply 404 body js"
  shows "response (get_status other remote token) =
     (404, PDict [(py ''error'', PStr (py ''Invalid or expired token.''))])"
  using assms by (simp add: get_status_def status_finish_def raise_for_status_def)

theorem poll_not_found_witness:
  "response (get_status no_text (engine_answering (Reply 404 (py ''Not Found'') None))
      (py ''abc'')) =
     (404, PDict [(py ''error'', PStr (py ''Invalid or expired token.''))])"
proof -
  have "py ''abc'' \<noteq> []" by (simp add: py_def)
  moreover have "engine_answering (Reply 404 (py ''Not Found'') None) (status_call (py ''abc''))
      = Reply 404 (py ''Not Found'') None"
    by (simp add: engine_answering_def)
  ultimately show ?thesis by (rule poll_not_found)
qed

text \<open>
  C2: for a non-empty token, when the remote engine answers the query without an HTTP error
  and the \<^verbatim>\<open>status\<close> object of its JSON body has the \<^verbatim>\<open>id\<close> 1 (in queue) or 2
  (processing), the poll gives HTTP 200 with exactly the object
  \<^verbatim>\<open>{"status": {"description": "Pending"}}\<close>: no other field is populated, whatever else
  the remote body holds.
\<close>

theorem poll_pending:
  assumes "token \<noteq> []"
    and "remote (status_call token) = Reply sc body (Some (PDict kvs))"
    and "\<not> raise_for_status sc"
    and "map_of kvs (py ''status'') = Some (PDict st)"
    and "map_of st (py ''id'') = Some (PInt c)"
    and "c = 1 \<or> c = 2"
  shows "get_status other remote token =
     \<lparr>response = (200, PDict [(py ''status'', PDict [(py ''description'', PStr (py ''Pending''))])]),
      calls = [status_call token]\<rparr>"
  using assms by (auto simp add: get_status_def status_finish_def bindE_def)

theorem poll_pending_witness:
  "get_status no_text
      (engine_answering (Reply 200 [] (Some (PDict [(py ''status'',
         PDict [(py ''id'', PInt 2), (py ''description'', PStr (py ''Processing''))])]))))
      (py ''abc'') =
     \<lparr>response = (200, PDict [(py ''status'', PDict [(py ''description'', PStr (py ''Pending''))])]),
      calls = [status_call (py ''abc'')]\<rparr>"
proof -
  have "py ''abc'' \<noteq> []" by (simp add: py_def)
  moreover have "engine_answering (Reply 200 [] (Some (PDict [(py ''status'',
         PDict [(py ''id'', PInt 2), (py ''description'', PStr (py ''Processing''))])])))
      (status_call (py ''abc'')) = Reply 200 [] (Some (PDict [(py ''status'',
         PDict [(py ''id'', PInt 2), (py ''description'', PStr (py ''Processing''))])]))"
    by (simp add: engine_answering_def)
  moreover have "\<not> raise_for_status 200" by (simp add: raise_for_status_def)
  moreover have "map_of [(py ''status'',
         PDict [(py ''id'', PInt 2), (py ''description'', PStr (py ''Processing''))])] (py ''status'')
     = Some (PDict [(py ''id'', PInt 2), (py ''description'', PStr (py ''Processing''))])"
    by simp
  moreover have "map_of [(py ''id'', PInt 2), (py ''description'', PStr (py ''Processing''))]
      (py ''id'') = Some (PInt 2)"
    by simp
  moreover have "(2::int) = 1 \<or> (2::int) = 2" by simp
  ultimately show ?thesis by (rule poll_pending)
qed

section \<open>Submit: the language\<close>

lemma cobol_unknown: "map_of LANGUAGE_MAP (py ''COBOL'') = None"
  by (simp add: LANGUAGE_MAP_def py_def)

text \<open>
  C3, as amended: for every request body whose \<^verbatim>\<open>language\<close> value is no key of
  \<^verbatim>\<open>LANGUAGE_MAP\<close>, Submit makes no outbound call. When the value is hashable (a string,
  a number, a boolean or \<^verbatim>\<open>null\<close>) the answer is HTTP 400 with the error
  \<^verbatim>\<open>Unsupported language: \<close> followed by the text of the value; when it is a list or a
  dict the lookup raises \<^verbatim>\<open>TypeError\<close> and the answer is the generic HTTP 500.
\<close>

theorem unsupported_language:
  assumes "map_of kvs (py ''language'') = Some v"
    and "\<forall>s. v = PStr s \<longrightarrow> map_of LANGUAGE_MAP s = None"
  shows "submit_code other remote (Parsed (PDict kvs)) =
     \<lparr>response =
        (if hashable v
         then (400, PDict [(py ''error'',
                 PStr (py ''Unsupported language: '' @ py_str other v))])
         else (500, PDict [(py ''error'', PStr (py ''An unexpected server error occurred.''))])),
      calls = []\<rparr>"
proof -
  have "kvs \<noteq> []" using assms(1) by auto
  with assms show ?thesis
    by (cases v) (simp_all add: submit_code_def submit_prepare_def bindE_def unsupported_def)
qed

theorem unsupported_language_witness:
  "submit_code no_text (engine_answering No_Reply)
      (Parsed (PDict [(py ''language'', PStr (py ''COBOL''))])) =
     \<lparr>response = (400, PDict [(py ''error'', PStr (py ''Unsupported language: COBOL''))]),
      calls = []\<rparr>"
proof -
  have 1: "map_of [(py ''language'', PStr (py ''COBOL''))] (py ''language'') =
      Some (PStr (py ''COBOL''))"
    by simp
  have 2: "\<forall>s. PStr (py ''COBOL'') = PStr s \<longrightarrow> map_of LANGUAGE_MAP s = None"
    using cobol_unknown by simp
  from unsupported_language [OF 1 2, of no_text "engine_answering No_Reply"]
  show ?thesis by (simp add: py_def)
qed

text \<open>
  C3 as stated fails on a \<^verbatim>\<open>language\<close> value that is a list: it is no key of the table,
  but \<^verbatim>\<open>LANGUAGE_MAP.get\<close> raises \<^verbatim>\<open>TypeError\<close> on the unhashable value and the answer is
  HTTP 500, not 400.
\<close>

theorem unhashable_language_counterexample:
  "submit_code no_text (engine_answering No_Reply)
      (Parsed (PDict [(py ''language'', PList [PStr (py ''COBOL'')])])) =
     \<lparr>response = (500, PDict [(py ''error'', PStr (py ''An unexpected server error occurred.''))]),
      calls = []\<rparr>"
  by (simp add: submit_code_def submit_prepare_def bindE_def)

lemma python_unknown: "map_of LANGUAGE_MAP (py ''python'') = None"
  by (simp add: LANGUAGE_MAP_def py_def)

text \<open>
  C10, as amended: a request body that is a non-empty object without a \<^verbatim>\<open>language\<close>
  field is not an invalid payload. The default name \<^verbatim>\<open>python\<close> is no key of
  \<^verbatim>\<open>LANGUAGE_MAP\<close>, so Submit gives HTTP 400 with the error
  \<^verbatim>\<open>Unsupported language: python\<close> and makes no outbound call.
\<close>

theorem default_language_unsupported:
  assumes "kvs \<noteq> []" and "map_of kvs (py ''language'') = None"
  shows "map_of LANGUAGE_MAP (py ''python'') = None \<and>
     submit_code other remote (Parsed (PDict kvs)) =
       \<lparr>response = (400, PDict [(py ''error'', PStr (py ''Unsupported language: python''))]),
        calls = []\<rparr>"
proof -
  have "py ''Unsupported language: '' @ py ''python'' = py ''Unsupported language: python''"
    by (simp add: py_def)
  with assms python_unknown show ?thesis
    by (simp add: submit_code_def submit_prepare_def bindE_def unsupported_def)
qed

theorem default_language_unsupported_witness:
  "map_of LANGUAGE_MAP (py ''python'') = None \<and>
   submit_code no_text (engine_answering No_Reply)
       (Parsed (PDict [(py ''code'', PStr (py ''print(1)''))])) =
     \<lparr>response = (400, PDict [(py ''error'', PStr (py ''Unsupported language: python''))]),
      calls = []\<rparr>"
proof -
  have "[(py ''code'', PStr (py ''print(1)''))] \<noteq> []" by simp
  moreover have "map_of [(py ''code'', PStr (py ''print(1)''))] (py ''language'') = None"
    by (simp add: py_def)
  ultimately show ?thesis by (rule default_language_unsupported)
qed

text \<open>
  C10 as stated fails on the empty object \<^verbatim>\<open>{}\<close>: it has no \<^verbatim>\<open>language\<close> field, but
  \<^verbatim>\<open>not data\<close> holds for it and the answer is the invalid payload error.
\<close>

theorem empty_object_counterexample:
  "map_of [] (py ''language'') = (None :: pyval option) \<and>
   submit_code no_text (engine_answering No_Reply) (Parsed (PDict [])) =
     \<lparr>response = (400, PDict [(py ''error'', PStr (py ''Invalid JSON payload''))]), calls = []\<rparr> \<and>
   py ''Invalid JSON payload'' \<noteq> py ''Unsupported language: python''"
  by (simp add: submit_code_def submit_prepare_def py_def)

section \<open>Submit: the payload and the answer\<close>

text \<open>
  Text of code points below 128 is its own UTF-8 encoding, in both directions.
\<close>

lemma utf8_encode_ascii: "list_all (\<lambda>c. c < 128) s \<Longrightarrow> utf8_encode s = Inr s"
  by (induction s) (simp_all add: utf8_encode_char_def)

lemma utf8_decode_ascii: "list_all (\<lambda>c. c < 128) bs \<Longrightarrow> utf8_decode bs = Inr bs"
  by (induction bs) simp_all

lemma b64encode_print: "b64encode (py ''print(1)'') = py ''cHJpbnQoMSk=''"
  by (simp add: py_def b64_char_def table_b2a_base64_def)

lemma b64_text_print: "b64_text (PStr (py ''print(1)'')) = Inr (py ''cHJpbnQoMSk='')"
proof -
  have "utf8_encode (py ''print(1)'') = Inr (py ''print(1)'')"
    by (rule utf8_encode_ascii) (simp add: py_def)
  moreover have "utf8_decode (py ''cHJpbnQoMSk='') = Inr (py ''cHJpbnQoMSk='')"
    by (rule utf8_decode_ascii) (simp add: py_def)
  ultimately show ?thesis by (simp add: b64_text_def bindE_def b64encode_print)
qed

lemma b64_text_empty: "b64_text (PStr []) = Inr []"
  by (simp add: b64_text_def bindE_def)

lemma python3_known: "map_of LANGUAGE_MAP (py ''Python 3'') = Some 71"
  by (simp add: LANGUAGE_MAP_def py_def)

lemma print_lookup:
  "map_of [(py ''code'', PStr (py ''print(1)'')), (py ''language'', PStr (py ''Python 3'')),
      (py ''stdin'', PStr [])] (py ''code'') = Some (PStr (py ''print(1)''))"
  "map_of [(py ''code'', PStr (py ''print(1)'')), (py ''language'', PStr (py ''Python 3'')),
      (py ''stdin'', PStr [])] (py ''language'') = Some (PStr (py ''Python 3''))"
  "map_of [(py ''code'', PStr (py ''print(1)'')), (py ''language'', PStr (py ''Python 3'')),
      (py ''stdin'', PStr [])] (py ''stdin'') = Some (PStr [])"
  by (simp_all add: py_def)

lemma prepare_call:
  assumes "map_of kvs (py ''code'') = Some code"
    and "map_of kvs (py ''language'') = Some (PStr name)"
    and "map_of kvs (py ''stdin'') = Some stdin"
    and "map_of LANGUAGE_MAP name = Some language_id"
    and "language_id \<noteq> 0"
    and "b64_text code = Inr encoded_code"
    and "b64_text stdin = Inr encoded_stdin"
  shows "submit_prepare other (Parsed (PDict kvs)) =
    Inr (Inr (submission encoded_code language_id encoded_stdin))"
proof -
  have "kvs \<noteq> []" using assms(1) by auto
  with assms show ?thesis by (simp add: submit_prepare_def bindE_def)
qed

lemma prepare_print:
  "submit_prepare other
     (Parsed (PDict [(py ''code'', PStr (py ''print(1)'')), (py ''language'', PStr (py ''Python 3'')),
        (py ''stdin'', PStr [])])) =
   Inr (Inr (submission (py ''cHJpbnQoMSk='') 71 []))"
  by (rule prepare_call [OF print_lookup python3_known _ b64_text_print b64_text_empty]) simp

text \<open>
  C1: for the request \<^verbatim>\<open>{code: "print(1)", language: "Python 3", stdin: ""}\<close> Submit makes
  one outbound call, a POST whose payload has \<^verbatim>\<open>language_id\<close> 71, as \<^verbatim>\<open>source_code\<close> the
  base64 encoding of \<^verbatim>\<open>print(1)\<close> (which is \<^verbatim>\<open>cHJpbnQoMSk=\<close>), as \<^verbatim>\<open>stdin\<close> the base64
  encoding of the empty text (which is empty), \<^verbatim>\<open>cpu_time_limit\<close> 5 and
  \<^verbatim>\<open>memory_limit\<close> 256000. When the remote engine answers that call without an HTTP error
  and with a JSON object holding a token, Submit gives HTTP 202 with that token.
\<close>

theorem submit_python3_print:
  assumes "remote (submission (py ''cHJpbnQoMSk='') 71 []) = Reply sc body (Some (PDict kvs))"
    and "\<not> raise_for_status sc"
    and "map_of kvs (py ''token'') = Some token"
  shows "b64encode (py ''print(1)'') = py ''cHJpbnQoMSk='' \<and> b64encode [] = [] \<and>
    submit_code other remote
      (Parsed (PDict [(py ''code'', PStr (py ''print(1)'')),
         (py ''language'', PStr (py ''Python 3'')), (py ''stdin'', PStr [])])) =
    \<lparr>response = (202, PDict [(py ''token'', token)]),
     calls = [\<lparr>verb = POST,
        url = py ''https://ce.judge0.com/submissions?base64_encoded=true&wait=false'',
        json_payload = Some (PDict
          [(py ''source_code'', PStr (py ''cHJpbnQoMSk='')),
           (py ''language_id'', PInt 71),
           (py ''stdin'', PStr []),
           (py ''cpu_time_limit'', PInt 5),
           (py ''memory_limit'', PInt 256000)]),
        headers = [(py ''content-type'', py ''application/json'')]\<rparr>]\<rparr>"
proof -
  have u: "JUDGE0_URL @ py ''/submissions?base64_encoded=true&wait=false'' =
      py ''https://ce.judge0.com/submissions?base64_encoded=true&wait=false''"
    by (simp add: JUDGE0_URL_def py_def)
  show ?thesis
    using assms
    by (simp add: b64encode_print submit_code_def prepare_print submit_finish_def bindE_def
        submission_def u)
qed

theorem submit_python3_print_witness:
  "submit_code no_text
      (engine_answering (Reply 201 [] (Some (PDict [(py ''token'', PStr (py ''d85cd024''))]))))
      (Parsed (PDict [(py ''code'', PStr (py ''print(1)'')),
         (py ''language'', PStr (py ''Python 3'')), (py ''stdin'', PStr [])])) =
    \<lparr>response = (202, PDict [(py ''token'', PStr (py ''d85cd024''))]),
     calls = [\<lparr>verb = POST,
        url = py ''https://ce.judge0.com/submissions?base64_encoded=true&wait=false'',
        json_payload = Some (PDict
          [(py ''source_code'', PStr (py ''cHJpbnQoMSk='')),
           (py ''language_id'', PInt 71),
           (py ''stdin'', PStr []),
           (py ''cpu_time_limit'', PInt 5),
           (py ''memory_limit'', PInt 256000)]),
        headers = [(py ''content-type'', py ''application/json'')]\<rparr>]\<rparr>"
proof -
  have "engine_answering (Reply 201 [] (Some (PDict [(py ''token'', PStr (py ''d85cd024''))])))
      (submission (py ''cHJpbnQoMSk='') 71 []) =
      Reply 201 [] (Some (PDict [(py ''token'', PStr (py ''d85cd024''))]))"
    by (simp add: engine_answering_def)
  moreover have "\<not> raise_for_status 201" by (simp add: raise_for_status_def)
  moreover have "map_of [(py ''token'', PStr (py ''d85cd024''))] (py ''token'') =
      Some (PStr (py ''d85cd024''))"
    by simp
  ultimately show ?thesis using submit_python3_print by blast
qed

section \<open>Submit: failures of the outbound call\<close>

text \<open>
  No step of the \<^verbatim>\<open>try\<close> block before the outbound call raises an \<^verbatim>\<open>HTTPError\<close>, so
  every exception raised there is answered by the second \<^verbatim>\<open>except\<close> clause.
\<close>

lemma dict_get_no_http: "dict_get d k x = Inl e \<Longrightarrow> e = AttributeError"
  by (cases d) simp_all

lemma language_lookup_no_http: "language_lookup v = Inl e \<Longrightarrow> e = TypeError"
  by (cases v) simp_all

lemma utf8_encode_no_http: "utf8_encode s = Inl e \<Longrightarrow> e = UnicodeEncodeError"
proof (induction s)
  case Nil
  then show ?case by simp
next
  case (Cons cp s)
  then show ?case
    by (auto simp add: utf8_encode_char_def split: sum.splits if_splits)
qed

lemma utf8_decode_no_http: "utf8_decode bs = Inl e \<Longrightarrow> e = UnicodeDecodeError"
proof (induction bs rule: utf8_decode.induct)
  case 1
  then show ?case by simp
next
  case (2 a bs)
  then show ?case
    by (auto simp del: utf8_next.simps split: option.splits sum.splits)
qed

lemma b64_text_no_http:
  "b64_text v = Inl e \<Longrightarrow>
   e = AttributeError \<or> e = UnicodeEncodeError \<or> e = UnicodeDecodeError"
proof (cases v)
  case (PStr s)
  assume "b64_text v = Inl e"
  with PStr show ?thesis
    by (auto simp add: b64_text_def bindE_def split: sum.splits
        dest: utf8_encode_no_http utf8_decode_no_http)
qed (simp_all add: b64_text_def bindE_def)

lemma submit_prepare_no_http:
  assumes "submit_prepare other req = Inl e"
  shows "e \<noteq> HTTPError sc body"
proof
  assume h: "e = HTTPError sc body"
  from assms show False
    unfolding submit_prepare_def bindE_def h
    by (auto split: request_json.splits if_splits sum.splits option.splits
        dest: dict_get_no_http language_lookup_no_http b64_text_no_http)
qed

lemma submit_prepare_error:
  assumes "submit_prepare other req = Inl e"
  shows "submit_except e =
    (500, PDict [(py ''error'', PStr (py ''An unexpected server error occurred.''))])"
  using submit_prepare_no_http [OF assms] by (cases e) auto

text \<open>
  C7, as amended: when the remote engine answers the outbound call with an HTTP error
  status (400 to 599), Submit gives HTTP 502 with the error
  \<^verbatim>\<open>Failed to submit code to compiler service.\<close> and the text of the remote response as
  \<^verbatim>\<open>details\<close>. Every other failure gives the generic HTTP 500: a failure of the transport,
  where no response arrives; a remote body that is no JSON or no JSON object; and every
  exception raised before the call, where no call is made. Only a remote answer that is a
  JSON object without HTTP error is a success, HTTP 202 with its token.
\<close>

theorem submit_failures:
  "(submit_prepare other req = Inl e \<longrightarrow>
      submit_code other remote req =
        \<lparr>response = (500, PDict
           [(py ''error'', PStr (py ''An unexpected server error occurred.''))]),
         calls = []\<rparr>) \<and>
   (submit_prepare other req = Inr (Inr call) \<longrightarrow>
      submit_code other remote req =
        \<lparr>response =
           (case remote call of
              No_Reply \<Rightarrow>
                (500, PDict [(py ''error'', PStr (py ''An unexpected server error occurred.''))])
            | Reply sc body js \<Rightarrow>
                if raise_for_status sc
                then (502, PDict
                  [(py ''error'', PStr (py ''Failed to submit code to compiler service.'')),
                   (py ''details'', PStr body)])
                else
                  (case js of
                     Some (PDict kvs) \<Rightarrow>
                       (202, PDict [(py ''token'',
                          case map_of kvs (py ''token'') of None \<Rightarrow> PNone | Some t \<Rightarrow> t)])
                   | _ \<Rightarrow>
                       (500, PDict
                         [(py ''error'', PStr (py ''An unexpected server error occurred.''))]))),
         calls = [call]\<rparr>)"
proof (intro conjI impI)
  assume p: "submit_prepare other req = Inl e"
  have "submit_except e =
      (500, PDict [(py ''error'', PStr (py ''An unexpected server error occurred.''))])"
    by (rule submit_prepare_error [OF p])
  with p show "submit_code other remote req =
      \<lparr>response = (500, PDict
         [(py ''error'', PStr (py ''An unexpected server error occurred.''))]),
       calls = []\<rparr>"
    by (simp add: submit_code_def)
next
  assume p: "submit_prepare other req = Inr (Inr call)"
  show "submit_code other remote req =
      \<lparr>response =
         (case remote call of
            No_Reply \<Rightarrow>
              (500, PDict [(py ''error'', PStr (py ''An unexpected server error occurred.''))])
          | Reply sc body js \<Rightarrow>
              if raise_for_status sc
              then (502, PDict
                [(py ''error'', PStr (py ''Failed to submit code to compiler service.'')),
                 (py ''details'', PStr body)])
              else
                (case js of
                   Some (PDict kvs) \<Rightarrow>
                     (202, PDict [(py ''token'',
                        case map_of kvs (py ''token'') of None \<Rightarrow> PNone | Some t \<Rightarrow> t)])
                 | _ \<Rightarrow>
                     (500, PDict
                       [(py ''error'', PStr (py ''An unexpected server error occurred.''))]))),
       calls = [call]\<rparr>"
    by (simp add: submit_code_def p submit_finish_def bindE_def
        split: remote_reply.splits option.splits pyval.splits)
qed

theorem submit_failures_witness:
  "submit_code no_text (engine_answering (Reply 503 (py ''queue is full'') None))
      (Parsed (PDict [(py ''code'', PStr (py ''print(1)'')),
         (py ''language'', PStr (py ''Python 3'')), (py ''stdin'', PStr [])])) =
     \<lparr>response = (502, PDict
        [(py ''error'', PStr (py ''Failed to submit code to compiler service.'')),
         (py ''details'', PStr (py ''queue is full''))]),
      calls = [submission (py ''cHJpbnQoMSk='') 71 []]\<rparr> \<and>
   submit_code no_text (engine_answering (Reply 200 (py ''<html>'') None))
      (Parsed (PDict [(py ''code'', PStr (py ''print(1)'')),
         (py ''language'', PStr (py ''Python 3'')), (py ''stdin'', PStr [])])) =
     \<lparr>response = (500, PDict
        [(py ''error'', PStr (py ''An unexpected server error occurred.''))]),
      calls = [submission (py ''cHJpbnQoMSk='') 71 []]\<rparr> \<and>
   submit_code no_text (engine_answering No_Reply) Unparsable =
     \<lparr>response = (500, PDict
        [(py ''error'', PStr (py ''An unexpected server error occurred.''))]),
      calls = []\<rparr>"
proof -
  have u: "submit_prepare no_text Unparsable = Inl BadRequest"
    by (simp add: submit_prepare_def)
  have "submit_code no_text (engine_answering (Reply 503 (py ''queue is full'') None))
      (Parsed (PDict [(py ''code'', PStr (py ''print(1)'')),
         (py ''language'', PStr (py ''Python 3'')), (py ''stdin'', PStr [])])) =
     \<lparr>response = (502, PDict
        [(py ''error'', PStr (py ''Failed to submit code to compiler service.'')),
         (py ''details'', PStr (py ''queue is full''))]),
      calls = [submission (py ''cHJpbnQoMSk='') 71 []]\<rparr>"
    using submit_failures [where other = no_text
        and remote = "engine_answering (Reply 503 (py ''queue is full'') None)"
        and call = "submission (py ''cHJpbnQoMSk='') 71 []"
        and req = "Parsed (PDict [(py ''code'', PStr (py ''print(1)'')),
         (py ''language'', PStr (py ''Python 3'')), (py ''stdin'', PStr [])])"]
    by (simp add: prepare_print engine_answering_def raise_for_status_def)
  moreover have "submit_code no_text (engine_answering (Reply 200 (py ''<html>'') None))
      (Parsed (PDict [(py ''code'', PStr (py ''print(1)'')),
         (py ''language'', PStr (py ''Python 3'')), (py ''stdin'', PStr [])])) =
     \<lparr>response = (500, PDict
        [(py ''error'', PStr (py ''An unexpected server error occurred.''))]),
      calls = [submission (py ''cHJpbnQoMSk='') 71 []]\<rparr>"
    using submit_failures [where other = no_text
        and remote = "engine_answering (Reply 200 (py ''<html>'') None)"
        and call = "submission (py ''cHJpbnQoMSk='') 71 []"
        and req = "Parsed (PDict [(py ''code'', PStr (py ''print(1)'')),
         (py ''language'', PStr (py ''Python 3'')), (py ''stdin'', PStr [])])"]
    by (simp add: prepare_print engine_answering_def raise_for_status_def)
  moreover have "submit_code no_text (engine_answering No_Reply) Unparsable =
     \<lparr>response = (500, PDict
        [(py ''error'', PStr (py ''An unexpected server error occurred.''))]),
      calls = []\<rparr>"
    using submit_failures [where other = no_text and remote = "engine_answering No_Reply"
        and req = Unparsable and e = BadRequest] u
    by simp
  ultimately show ?thesis by simp
qed

text \<open>
  C7 as stated fails on a failure of the transport: \<^verbatim>\<open>requests.post\<close> raises an
  exception that is not an \<^verbatim>\<open>HTTPError\<close>, only \<^verbatim>\<open>except Exception\<close> catches it, and the
  answer is HTTP 500, not 502.
\<close>

theorem transport_failure_counterexample:
  "submit_code no_text (engine_answering No_Reply)
      (Parsed (PDict [(py ''code'', PStr (py ''print(1)'')),
         (py ''language'', PStr (py ''Python 3'')), (py ''stdin'', PStr [])])) =
     \<lparr>response = (500, PDict
        [(py ''error'', PStr (py ''An unexpected server error occurred.''))]),
      calls = [submission (py ''cHJpbnQoMSk='') 71 []]\<rparr>"
  by (simp add: submit_code_def prepare_print submit_finish_def engine_answering_def)

section \<open>The decoding helper never raises\<close>

text \<open>
  The decoder raises nothing but \<^verbatim>\<open>binascii.Error\<close>, so every exception of
  \<^verbatim>\<open>b64decode\<close> is one that the helper catches.
\<close>

lemma a2b_base64_error: "a2b_base64 q l p out s = Inl e \<Longrightarrow> e = BinasciiError"
proof (induction s arbitrary: q l p out)
  case Nil
  then show ?case by (simp split: if_splits)
next
  case (Cons c s)
  then show ?case by (auto split: if_splits option.splits)
qed

lemma b64decode_error: "b64decode v = Inl e \<Longrightarrow> is_TypeError e \<or> is_ValueError e"
  by (cases v) (auto split: if_splits dest: a2b_base64_error)

text \<open>
  C5: the helper is total. For every parsed value (a string that is no base64, a string
  whose decoded bytes are no UTF-8, a number, a list, ...) it returns a text and no
  exception leaves it; for \<^verbatim>\<open>None\<close> the text is empty.
\<close>

theorem decode_total:
  "(\<exists>s. decode_base64_output other data = Inr s) \<and> decode_base64_output other PNone = Inr []"
proof -
  have "\<exists>s. decode_base64_output other data = Inr s"
  proof (cases "b64decode data")
    case (Inl e)
    with b64decode_error [OF Inl] show ?thesis by (simp add: decode_base64_output_def)
  next
    case (Inr bs)
    then show ?thesis by (simp add: decode_base64_output_def)
  qed
  then show ?thesis by (simp add: decode_base64_output_def)
qed

theorem decode_total_witness:
  "(\<exists>s. decode_base64_output no_text (PStr (py ''/w=='')) = Inr s) \<and>
   decode_base64_output no_text PNone = Inr []"
  using decode_total [of no_text "PStr (py ''/w=='')"] by simp

text \<open>
  Two inputs of the helper: \<^verbatim>\<open>abc\<close> ends inside a group of four, base64 cannot decode
  it and the helper gives the input back; \<^verbatim>\<open>/w==\<close> decodes to the byte 255, which is no
  UTF-8 and is left out.
\<close>

lemma b64decode_abc: "b64decode (PStr (py ''abc'')) = Inl BinasciiError"
  by (simp add: py_def b64_value_def)

lemma decode_abc: "decode_base64_output other (PStr (py ''abc'')) = Inr (py ''abc'')"
  by (simp add: decode_base64_output_def b64decode_abc del: b64decode.simps)

lemma b64decode_ff: "b64decode (PStr (py ''/w=='')) = Inr [255]"
  by (simp add: py_def b64_value_def)

lemma decode_ff: "decode_base64_output other (PStr (py ''/w=='')) = Inr []"
  by (simp add: decode_base64_output_def b64decode_ff del: b64decode.simps)

section \<open>PollStatus: the text fields of a terminal result\<close>

text \<open>
  Each of the three text entries of \<^verbatim>\<open>final_result\<close> is what the helper returns on the
  field of the remote result, \<^verbatim>\<open>None\<close> standing for an absent field.
\<close>

lemma result_keys_distinct:
  "py ''stdout'' \<noteq> py ''status''"
  "py ''stderr'' \<noteq> py ''status''" "py ''stderr'' \<noteq> py ''stdout''"
  "py ''compile_output'' \<noteq> py ''status''" "py ''compile_output'' \<noteq> py ''stdout''"
  "py ''compile_output'' \<noteq> py ''stderr''"
  by (simp_all add: py_def)

lemma final_result_field:
  assumes "final_result other (PDict kvs) = Inr (PDict out)"
    and "k = py ''stdout'' \<or> k = py ''stderr'' \<or> k = py ''compile_output''"
  shows "\<exists>t. decode_base64_output other (case map_of kvs k of None \<Rightarrow> PNone | Some v \<Rightarrow> v) = Inr t
    \<and> map_of out k = Some (PStr t)"
  using assms unfolding final_result_def bindE_def
  by (auto split: sum.splits simp add: result_keys_distinct)

text \<open>
  C4, as amended: in every terminal poll result, each of \<^verbatim>\<open>stdout\<close>, \<^verbatim>\<open>stderr\<close> and
  \<^verbatim>\<open>compile_output\<close> is the empty text when the field is absent or \<^verbatim>\<open>null\<close> in the
  remote result; when the field is a string that base64 cannot decode, the entry is that
  string itself, as \<^verbatim>\<open>str(data)\<close> returns it.
\<close>

theorem terminal_text_fields:
  assumes "final_result other (PDict kvs) = Inr (PDict out)"
    and "k = py ''stdout'' \<or> k = py ''stderr'' \<or> k = py ''compile_output''"
  shows "(map_of kvs k = None \<or> map_of kvs k = Some PNone \<longrightarrow> map_of out k = Some (PStr [])) \<and>
    (map_of kvs k = Some (PStr s) \<and> b64decode (PStr s) = Inl e \<longrightarrow> map_of out k = Some (PStr s))"
proof -
  from final_result_field [OF assms] obtain t
    where t: "decode_base64_output other (case map_of kvs k of None \<Rightarrow> PNone | Some v \<Rightarrow> v) = Inr t"
      and o: "map_of out k = Some (PStr t)"
    by blast
  have "map_of kvs k = None \<or> map_of kvs k = Some PNone \<Longrightarrow> t = []"
    using t by (auto simp add: decode_base64_output_def)
  moreover have "map_of kvs k = Some (PStr s) \<Longrightarrow> b64decode (PStr s) = Inl e \<Longrightarrow> t = s"
    using t b64decode_error [of "PStr s" e]
    by (simp add: decode_base64_output_def del: b64decode.simps)
  ultimately show ?thesis using o by blast
qed

lemma final_result_abc:
  "final_result other (PDict [(py ''status'',
        PDict [(py ''id'', PInt 3), (py ''description'', PStr (py ''Accepted''))]),
      (py ''stdout'', PStr (py ''abc''))]) =
   Inr (PDict [(py ''status'', PStr (py ''Accepted'')), (py ''stdout'', PStr (py ''abc'')),
      (py ''stderr'', PStr []), (py ''compile_output'', PStr []), (py ''time'', PNone),
      (py ''memory'', PNone)])"
  by (simp add: final_result_def bindE_def py_def decode_base64_output_def b64_value_def)

theorem terminal_text_fields_witness:
  "map_of [(py ''status'', PStr (py ''Accepted'')), (py ''stdout'', PStr (py ''abc'')),
      (py ''stderr'', PStr []), (py ''compile_output'', PStr []), (py ''time'', PNone),
      (py ''memory'', PNone)] (py ''stderr'') = Some (PStr []) \<and>
   map_of [(py ''status'', PStr (py ''Accepted'')), (py ''stdout'', PStr (py ''abc'')),
      (py ''stderr'', PStr []), (py ''compile_output'', PStr []), (py ''time'', PNone),
      (py ''memory'', PNone)] (py ''stdout'') = Some (PStr (py ''abc''))"
proof -
  have e: "map_of [(py ''status'',
        PDict [(py ''id'', PInt 3), (py ''description'', PStr (py ''Accepted''))]),
      (py ''stdout'', PStr (py ''abc''))] (py ''stderr'') = None"
    by (simp add: py_def)
  have o: "map_of [(py ''status'',
        PDict [(py ''id'', PInt 3), (py ''description'', PStr (py ''Accepted''))]),
      (py ''stdout'', PStr (py ''abc''))] (py ''stdout'') = Some (PStr (py ''abc''))"
    by (simp add: py_def)
  show ?thesis
    using terminal_text_fields [OF final_result_abc, where k = "py ''stderr''" and s = "py ''abc''"
          and e = BinasciiError]
      terminal_text_fields [OF final_result_abc, where k = "py ''stdout''" and s = "py ''abc''"
          and e = BinasciiError]
      e o b64decode_abc
    by blast
qed

text \<open>
  C4 as stated fails on a field that is no base64: with \<^verbatim>\<open>stdout\<close> equal to \<^verbatim>\<open>abc\<close> the
  decoder raises \<^verbatim>\<open>binascii.Error\<close> and the poll answers with \<^verbatim>\<open>abc\<close> as \<^verbatim>\<open>stdout\<close>, not
  with the empty text.
\<close>

theorem undecodable_field_counterexample:
  "b64decode (PStr (py ''abc'')) = Inl BinasciiError \<and>
   response (get_status no_text
     (engine_answering (Reply 200 [] (Some (PDict [(py ''status'',
        PDict [(py ''id'', PInt 3), (py ''description'', PStr (py ''Accepted''))]),
      (py ''stdout'', PStr (py ''abc''))])))) (py ''abc'')) =
   (200, PDict [(py ''status'', PStr (py ''Accepted'')), (py ''stdout'', PStr (py ''abc'')),
      (py ''stderr'', PStr []), (py ''compile_output'', PStr []), (py ''time'', PNone),
      (py ''memory'', PNone)]) \<and>
   py ''abc'' \<noteq> []"
proof -
  have "py ''abc'' \<noteq> []" by (simp add: py_def)
  moreover have "status_finish no_text (Reply 200 [] (Some (PDict [(py ''status'',
        PDict [(py ''id'', PInt 3), (py ''description'', PStr (py ''Accepted''))]),
      (py ''stdout'', PStr (py ''abc''))]))) =
    Inr (200, PDict [(py ''status'', PStr (py ''Accepted'')), (py ''stdout'', PStr (py ''abc'')),
      (py ''stderr'', PStr []), (py ''compile_output'', PStr []), (py ''time'', PNone),
      (py ''memory'', PNone)])"
    by (simp add: status_finish_def raise_for_status_def bindE_def final_result_abc)
  ultimately show ?thesis
    by (simp add: b64decode_abc get_status_def engine_answering_def del: b64decode.simps)
qed

section \<open>Base64 and UTF-8: decoding undoes encoding\<close>

text \<open>
  The alphabet table and the value table are inverse to each other, and no character of
  the alphabet is the padding character.
\<close>

lemma table_values: "map b64_value table_b2a_base64 = map Some [0..<64]"
  by (simp add: py_def b64_value_def table_b2a_base64_def upt_rec)

lemma table_ascii: "list_all (\<lambda>c. c < 128 \<and> c \<noteq> 61) table_b2a_base64"
  by (simp add: py_def table_b2a_base64_def)

lemma table_length: "length table_b2a_base64 = 64"
  by (simp add: py_def table_b2a_base64_def)

lemma b64_value_char: "i < 64 \<Longrightarrow> b64_value (b64_char i) = Some i"
proof -
  assume i: "i < 64"
  have "map b64_value table_b2a_base64 ! i = map Some [0..<64] ! i"
    by (simp only: table_values)
  with i show ?thesis
    by (simp add: b64_char_def table_length del: upt_Suc)
qed

lemma b64_char_ascii: "i < 64 \<Longrightarrow> b64_char i < 128 \<and> b64_char i \<noteq> 61"
  using table_ascii by (simp add: b64_char_def list_all_length table_length)

text \<open>
  The decoding loop on one encoded group, and on the whole encoding of a byte sequence.
\<close>

lemma a2b_pad:
  "a2b_base64 q l p out (61 # rest) =
     (if 2 \<le> q \<and> 4 \<le> q + (p + 1) then Inr out
      else a2b_base64 q l (if 2 \<le> q then p + 1 else p) out rest)"
  by simp

lemma a2b_char:
  assumes "i < 64"
  shows "a2b_base64 q l p out (b64_char i # rest) =
     (if q = 0 then a2b_base64 1 i 0 out rest
      else if q = 1 then a2b_base64 2 (i mod 16) 0 (out @ [l * 4 + i div 16]) rest
      else if q = 2 then a2b_base64 3 (i mod 4) 0 (out @ [l * 16 + i div 4]) rest
      else a2b_base64 0 0 0 (out @ [l * 64 + i]) rest)"
proof -
  have "b64_char i \<noteq> 61" and "b64_value (b64_char i) = Some i"
    using assms b64_char_ascii b64_value_char by simp_all
  then show ?thesis by simp
qed

lemma sextets:
  fixes a b c :: nat
  assumes "a < 256" "b < 256" "c < 256"
  shows "a div 4 < 64" "a mod 4 * 16 + b div 16 < 64" "b mod 16 * 4 + c div 64 < 64"
    "c mod 64 < 64" "a mod 4 * 16 < 64" "b mod 16 * 4 < 64"
  using assms by auto

lemma octets:
  fixes a b c :: nat
  assumes "a < 256" "b < 256" "c < 256"
  shows "a div 4 * 4 + (a mod 4 * 16 + b div 16) div 16 = a"
    "(a mod 4 * 16 + b div 16) mod 16 * 16 + (b mod 16 * 4 + c div 64) div 4 = b"
    "(b mod 16 * 4 + c div 64) mod 4 * 64 + c mod 64 = c"
    "a div 4 * 4 + (a mod 4 * 16) div 16 = a"
    "(a mod 4 * 16 + b div 16) mod 16 * 16 + (b mod 16 * 4) div 4 = b"
  using assms by auto

lemma a2b_quad:
  assumes "i < 64" "j < 64" "k < 64" "m < 64"
  shows "a2b_base64 0 0 0 out (b64_char i # b64_char j # b64_char k # b64_char m # rest) =
    a2b_base64 0 0 0 (out @ [i * 4 + j div 16, j mod 16 * 16 + k div 4, k mod 4 * 64 + m]) rest"
  by (simp add: a2b_char assms del: a2b_base64.simps(2))

lemma a2b_tail2:
  assumes "i < 64" "j < 64" "k < 64"
  shows "a2b_base64 0 0 0 out [b64_char i, b64_char j, b64_char k, 61] =
    Inr (out @ [i * 4 + j div 16, j mod 16 * 16 + k div 4])"
  by (simp add: a2b_char a2b_pad assms del: a2b_base64.simps(2))

lemma a2b_tail1:
  assumes "i < 64" "j < 64"
  shows "a2b_base64 0 0 0 out [b64_char i, b64_char j, 61, 61] = Inr (out @ [i * 4 + j div 16])"
  by (simp add: a2b_char a2b_pad assms del: a2b_base64.simps(2))

lemma a2b_b64encode:
  "list_all (\<lambda>b. b < 256) bs \<Longrightarrow> a2b_base64 0 0 0 out (b64encode bs) = Inr (out @ bs)"
proof (induction bs arbitrary: out rule: b64encode.induct)
  case 1
  show ?case by simp
next
  case (2 a)
  then have a: "a < 256" by simp
  show ?case
    by (simp only: b64encode.simps a2b_tail1 [OF sextets(1) [OF a a a] sextets(5) [OF a a a]]
        octets(4) [OF a a a])
next
  case (3 a b)
  then have a: "a < 256" and b: "b < 256" by simp_all
  show ?case
    by (simp only: b64encode.simps
        a2b_tail2 [OF sextets(1) [OF a b b] sextets(2) [OF a b b] sextets(6) [OF a b b]]
        octets(1) [OF a b b] octets(5) [OF a b b])
next
  case (4 a b c bs)
  then have a: "a < 256" and b: "b < 256" and c: "c < 256"
    and bs: "list_all (\<lambda>b. b < 256) bs" by simp_all
  have "a2b_base64 0 0 0 out (b64encode (a # b # c # bs)) =
      a2b_base64 0 0 0 (out @ [a, b, c]) (b64encode bs)"
    by (simp only: b64encode.simps append_Cons append_Nil
        a2b_quad [OF sextets(1) [OF a b c] sextets(2) [OF a b c] sextets(3) [OF a b c]
          sextets(4) [OF a b c]]
        octets(1) [OF a b c] octets(2) [OF a b c] octets(3) [OF a b c])
  also have "\<dots> = Inr ((out @ [a, b, c]) @ bs)" by (rule "4.IH" [OF bs])
  finally show ?case by simp
qed

text \<open>
  The well-formed sequence at the head of an encoded code point is that code point.
\<close>

lemma utf8_next_1: "cp < 0x80 \<Longrightarrow> utf8_next (cp # rest) = Some (cp, 1)"
  by simp

lemma utf8_next_2:
  assumes "0x80 \<le> cp" "cp < 0x800"
  shows "utf8_next ((0xC0 + cp div 64) # (0x80 + cp mod 64) # rest) = Some (cp, 2)"
proof -
  have "2 \<le> cp div 64" "cp div 64 < 32" "cp mod 64 < 64" "cp div 64 * 64 + cp mod 64 = cp"
    using assms by auto
  then show ?thesis by (simp add: cont_def)
qed

lemma mod_64_le: "(n::nat) mod 64 \<le> 63"
proof -
  have "n mod 64 < 64" by simp
  then show ?thesis by linarith
qed

lemma div_64_twice:
  fixes cp :: nat
  shows "cp div 4096 = cp div 64 div 64" "cp div 262144 = cp div 64 div 64 div 64"
  by (simp_all add: div_mult2_eq [symmetric])

lemma three_bytes:
  fixes cp x y r s :: nat
  assumes "cp = x * 64 + r" "r < 64" "x = y * 64 + s" "s < 64"
    and "0x800 \<le> cp" "cp < 0x10000" "\<not> (0xD800 \<le> cp \<and> cp \<le> 0xDFFF)"
  shows "y \<le> 15" "y * 4096 + s * 64 + r = cp" "y = 0 \<Longrightarrow> 32 \<le> s" "y = 13 \<Longrightarrow> s \<le> 31"
  using assms by auto

lemma four_bytes:
  fixes cp x y z r s t :: nat
  assumes "cp = x * 64 + r" "r < 64" "x = y * 64 + s" "s < 64" "y = z * 64 + t" "t < 64"
    and "0x10000 \<le> cp" "cp < 0x110000"
  shows "z \<le> 4" "z * 262144 + t * 4096 + s * 64 + r = cp" "z = 0 \<Longrightarrow> 16 \<le> t"
    "z = 4 \<Longrightarrow> t \<le> 15"
  using assms by auto

lemma utf8_next_3_parts:
  assumes "y \<le> 15" "s \<le> 63" "r \<le> 63" "y = 0 \<longrightarrow> 32 \<le> s" "y = 13 \<longrightarrow> s \<le> 31"
  shows "utf8_next ((0xE0 + y) # (0x80 + s) # (0x80 + r) # rest) =
    Some (y * 4096 + s * 64 + r, 3)"
  using assms by (simp add: cont_def second_of3_def)

lemma utf8_next_4_parts:
  assumes "z \<le> 4" "t \<le> 63" "s \<le> 63" "r \<le> 63" "z = 0 \<longrightarrow> 16 \<le> t"
    "z = 4 \<longrightarrow> t \<le> 15"
  shows "utf8_next ((0xF0 + z) # (0x80 + t) # (0x80 + s) # (0x80 + r) # rest) =
    Some (z * 262144 + t * 4096 + s * 64 + r, 4)"
  using assms by (simp add: cont_def second_of4_def)

lemma utf8_next_3:
  assumes "0x800 \<le> cp" "cp < 0x10000" "\<not> (0xD800 \<le> cp \<and> cp \<le> 0xDFFF)"
  shows "utf8_next ((0xE0 + cp div 4096) # (0x80 + cp div 64 mod 64) # (0x80 + cp mod 64) # rest)
    = Some (cp, 3)"
proof -
  have c: "cp = cp div 64 * 64 + cp mod 64" "cp mod 64 < 64"
    "cp div 64 = cp div 64 div 64 * 64 + cp div 64 mod 64" "cp div 64 mod 64 < 64"
    by simp_all
  note b = three_bytes [OF c assms]
  have "utf8_next ((0xE0 + cp div 64 div 64) # (0x80 + cp div 64 mod 64) # (0x80 + cp mod 64) #
      rest) = Some (cp div 64 div 64 * 4096 + cp div 64 mod 64 * 64 + cp mod 64, 3)"
    by (rule utf8_next_3_parts [OF b(1) mod_64_le mod_64_le]) (blast intro: b(3) b(4))+
  then show ?thesis unfolding b(2) div_64_twice(1) .
qed

lemma utf8_next_4:
  assumes "0x10000 \<le> cp" "cp < 0x110000"
  shows "utf8_next ((0xF0 + cp div 262144) # (0x80 + cp div 4096 mod 64) #
      (0x80 + cp div 64 mod 64) # (0x80 + cp mod 64) # rest) = Some (cp, 4)"
proof -
  have c: "cp = cp div 64 * 64 + cp mod 64" "cp mod 64 < 64"
    "cp div 64 = cp div 64 div 64 * 64 + cp div 64 mod 64" "cp div 64 mod 64 < 64"
    "cp div 64 div 64 = cp div 64 div 64 div 64 * 64 + cp div 64 div 64 mod 64"
    "cp div 64 div 64 mod 64 < 64"
    by simp_all
  note b = four_bytes [OF c assms]
  have "utf8_next ((0xF0 + cp div 64 div 64 div 64) # (0x80 + cp div 64 div 64 mod 64) #
      (0x80 + cp div 64 mod 64) # (0x80 + cp mod 64) # rest) =
    Some (cp div 64 div 64 div 64 * 262144 + cp div 64 div 64 mod 64 * 4096 +
      cp div 64 mod 64 * 64 + cp mod 64, 4)"
    by (rule utf8_next_4_parts [OF b(1) mod_64_le mod_64_le mod_64_le])
      (blast intro: b(3) b(4))+
  then show ?thesis unfolding b(2) div_64_twice .
qed

lemma div_bounds:
  fixes cp :: nat
  shows "cp < 0x800 \<Longrightarrow> cp div 64 < 32" "cp < 0x10000 \<Longrightarrow> cp div 4096 < 16"
    "cp < 0x110000 \<Longrightarrow> cp div 262144 < 17"
  by (simp_all add: div_less_iff_less_mult)

lemma utf8_char_bytes:
  assumes "utf8_encode_char cp = Inr bs"
  shows "list_all (\<lambda>b. b < 256) bs"
proof -
  have m: "\<And>n::nat. 128 + n mod 64 < 256"
    using mod_64_le by (simp add: add.commute less_Suc_eq_le)
  consider "bs = [cp]" "cp < 0x80"
    | "bs = [0xC0 + cp div 64, 0x80 + cp mod 64]" "cp < 0x800"
    | "bs = [0xE0 + cp div 4096, 0x80 + cp div 64 mod 64, 0x80 + cp mod 64]" "cp < 0x10000"
    | "bs = [0xF0 + cp div 262144, 0x80 + cp div 4096 mod 64, 0x80 + cp div 64 mod 64,
        0x80 + cp mod 64]" "cp < 0x110000"
    using assms by (auto simp add: utf8_encode_char_def split: if_splits)
  then show ?thesis
  proof cases
    case 1
    then show ?thesis by simp
  next
    case 2
    with div_bounds(1) [of cp] m show ?thesis by simp
  next
    case 3
    with div_bounds(2) [of cp] m show ?thesis by simp
  next
    case 4
    with div_bounds(3) [of cp] m show ?thesis by simp
  qed
qed

lemma utf8_char_decode:
  assumes "utf8_encode_char cp = Inr bs"
  shows "utf8_decode_ignore (bs @ rest) = cp # utf8_decode_ignore rest"
proof (cases "cp < 0x80")
  case True
  with assms have "bs = [cp]" by (simp add: utf8_encode_char_def)
  with True show ?thesis by simp
next
  case n1: False
  show ?thesis
  proof (cases "cp < 0x800")
    case True
    with n1 assms have "bs = [0xC0 + cp div 64, 0x80 + cp mod 64]"
      by (simp add: utf8_encode_char_def)
    moreover have "utf8_next ((0xC0 + cp div 64) # (0x80 + cp mod 64) # rest) = Some (cp, 2)"
      using n1 True by (intro utf8_next_2) simp_all
    ultimately show ?thesis by (simp del: utf8_next.simps)
  next
    case n2: False
    show ?thesis
    proof (cases "cp < 0x10000")
      case True
      with n1 n2 assms have s: "\<not> (0xD800 \<le> cp \<and> cp \<le> 0xDFFF)"
        and "bs = [0xE0 + cp div 4096, 0x80 + cp div 64 mod 64, 0x80 + cp mod 64]"
        by (simp_all add: utf8_encode_char_def split: if_splits)
      moreover have "utf8_next ((0xE0 + cp div 4096) # (0x80 + cp div 64 mod 64) #
          (0x80 + cp mod 64) # rest) = Some (cp, 3)"
        using n2 True s by (intro utf8_next_3) simp_all
      ultimately show ?thesis by (simp del: utf8_next.simps)
    next
      case n3: False
      with n1 n2 assms have lt: "cp < 0x110000"
        and "bs = [0xF0 + cp div 262144, 0x80 + cp div 4096 mod 64, 0x80 + cp div 64 mod 64,
          0x80 + cp mod 64]"
        by (simp_all add: utf8_encode_char_def split: if_splits)
      moreover have "utf8_next ((0xF0 + cp div 262144) # (0x80 + cp div 4096 mod 64) #
          (0x80 + cp div 64 mod 64) # (0x80 + cp mod 64) # rest) = Some (cp, 4)"
        using n3 lt by (intro utf8_next_4) simp_all
      ultimately show ?thesis by (simp del: utf8_next.simps)
    qed
  qed
qed

lemma utf8_encode_decode:
  "utf8_encode s = Inr bs \<Longrightarrow> utf8_decode_ignore bs = s \<and> list_all (\<lambda>b. b < 256) bs"
proof (induction s arbitrary: bs)
  case Nil
  then show ?case by simp
next
  case (Cons cp s)
  from Cons.prems obtain b1 b2 where 1: "utf8_encode_char cp = Inr b1"
    and 2: "utf8_encode s = Inr b2" and bs: "bs = b1 @ b2"
    by (auto split: sum.splits)
  from Cons.IH [OF 2] utf8_char_decode [OF 1, of b2] utf8_char_bytes [OF 1] bs
  show ?case by simp
qed

lemma utf8_encode_scalar: "list_all unicode_scalar s \<Longrightarrow> \<exists>bs. utf8_encode s = Inr bs"
proof (induction s)
  case Nil
  then show ?case by simp
next
  case (Cons cp s)
  then obtain b2 where "utf8_encode s = Inr b2" by auto
  moreover from Cons.prems have "\<exists>b1. utf8_encode_char cp = Inr b1"
    by (auto simp add: unicode_scalar_def utf8_encode_char_def)
  ultimately show ?case by auto
qed

lemma b64encode_ascii:
  "list_all (\<lambda>b. b < 256) bs \<Longrightarrow> list_all (\<lambda>c. c < 128) (b64encode bs)"
proof (induction bs rule: b64encode.induct)
  case 1
  show ?case by simp
next
  case (2 a)
  then have a: "a < 256" by simp
  note s = sextets [OF a a a]
  show ?case by (simp add: b64_char_ascii [OF s(1)] b64_char_ascii [OF s(5)])
next
  case (3 a b)
  then have a: "a < 256" and b: "b < 256" by simp_all
  note s = sextets [OF a b b]
  show ?case
    by (simp add: b64_char_ascii [OF s(1)] b64_char_ascii [OF s(2)] b64_char_ascii [OF s(6)])
next
  case (4 a b c bs)
  then have a: "a < 256" and b: "b < 256" and c: "c < 256"
    and bs: "list_all (\<lambda>b. b < 256) bs" by simp_all
  note s = sextets [OF a b c]
  show ?case
    by (simp add: "4.IH" [OF bs] b64_char_ascii [OF s(1)] b64_char_ascii [OF s(2)]
        b64_char_ascii [OF s(3)] b64_char_ascii [OF s(4)])
qed

text \<open>
  C6: for every valid UTF-8 text (a string of Unicode scalar values), encoding it as
  Submit encodes the code and stdin (UTF-8, base64, read back as text) succeeds, and the
  decoding helper applied to the result returns the original text.
\<close>

theorem base64_roundtrip:
  assumes "list_all unicode_scalar s"
  shows "\<exists>e. b64_text (PStr s) = Inr e \<and> decode_base64_output other (PStr e) = Inr s"
proof -
  from utf8_encode_scalar [OF assms] obtain bs where enc: "utf8_encode s = Inr bs" by blast
  from utf8_encode_decode [OF enc] have dec: "utf8_decode_ignore bs = s"
    and bytes: "list_all (\<lambda>b. b < 256) bs" by simp_all
  have ascii: "list_all (\<lambda>c. c < 128) (b64encode bs)" by (rule b64encode_ascii [OF bytes])
  have "b64_text (PStr s) = Inr (b64encode bs)"
    by (simp add: b64_text_def bindE_def enc utf8_decode_ascii [OF ascii])
  moreover have "decode_base64_output other (PStr (b64encode bs)) = Inr s"
    using a2b_b64encode [OF bytes, of "[]"] ascii dec by (simp add: decode_base64_output_def)
  ultimately show ?thesis by blast
qed

lemma b64_text_sample:
  "b64_text (PStr [0x70, 0xE9, 0x20AC, 0x1F600]) = Inr (py ''cMOp4oKs8J+YgA=='')"
proof -
  have "utf8_encode [0x70, 0xE9, 0x20AC, 0x1F600] =
      Inr [112, 195, 169, 226, 130, 172, 240, 159, 152, 128]"
    by (simp add: utf8_encode_char_def)
  moreover have "b64encode [112, 195, 169, 226, 130, 172, 240, 159, 152, 128] =
      py ''cMOp4oKs8J+YgA==''"
    by (simp add: py_def b64_char_def table_b2a_base64_def)
  moreover have "utf8_decode (py ''cMOp4oKs8J+YgA=='') = Inr (py ''cMOp4oKs8J+YgA=='')"
    by (rule utf8_decode_ascii) (simp add: py_def)
  ultimately show ?thesis by (simp add: b64_text_def bindE_def)
qed

theorem base64_roundtrip_witness:
  "b64_text (PStr [0x70, 0xE9, 0x20AC, 0x1F600]) = Inr (py ''cMOp4oKs8J+YgA=='') \<and>
   decode_base64_output no_text (PStr (py ''cMOp4oKs8J+YgA=='')) =
     Inr [0x70, 0xE9, 0x20AC, 0x1F600]"
proof -
  have "list_all unicode_scalar [0x70, 0xE9, 0x20AC, 0x1F600]"
    by (simp add: unicode_scalar_def)
  from base64_roundtrip [OF this, of no_text] b64_text_sample show ?thesis by auto
qed

end
